theory Spec2Isabelle
  imports Main "HOL-Library.Product_Lexorder"
begin

section \<open>JavaScript values and string primitives used by script.js\<close>

text \<open>
  Strings are lists of characters, with codes below 256.  The numbers that
  script.js computes with are
  the results of \<open>Number\<close> and \<open>parseInt\<close> on pieces of a version string and of
  adding one to them: non-negative integers or \<open>NaN\<close>.  They are modelled by
  natural numbers, which is what the source's doubles hold for every integer up
  to \<open>2^53\<close>.  An array read past the end gives \<open>undefined\<close>.
\<close>

datatype jsval = Undefined | NaN | Num nat

definition digitChars :: "char list" where
  "digitChars = ''0123456789''"

definition wordChars :: "char list" where
  "wordChars = ''abcdefghijklmnopqrstuvwxyzABCDEFGHIJKLMNOPQRSTUVWXYZ0123456789_''"

definition isDigit :: "char \<Rightarrow> bool" where
  "isDigit c = (c \<in> set digitChars)"

definition digitVal :: "char \<Rightarrow> nat" where
  "digitVal c = of_char c - 48"

definition decimal :: "string \<Rightarrow> nat" where
  "decimal s = foldl (\<lambda>a c. 10 * a + digitVal c) 0 s"


text \<open>
  \<open>parseInt(s)\<close>: the value of the longest prefix of digits, \<open>NaN\<close> when there is
  none.  Leading white space, a sign and the prefix \<open>0x\<close> are not modelled; the
  piece of a valid version that the source passes to \<open>parseInt\<close> is digits only.
\<close>

definition parseInt :: "string \<Rightarrow> jsval" where
  "parseInt s = (if takeWhile isDigit s = [] then NaN
                 else Num (decimal (takeWhile isDigit s)))"

fun showNat :: "nat \<Rightarrow> string" where
  "showNat n = (if n < 10 then [digitChars ! n]
                else showNat (n div 10) @ [digitChars ! (n mod 10)])"

declare showNat.simps [simp del]

text \<open>A value inside a template literal.\<close>

definition toStr :: "jsval \<Rightarrow> string" where
  "toStr v = (case v of Undefined \<Rightarrow> ''undefined'' | NaN \<Rightarrow> ''NaN'' | Num n \<Rightarrow> showNat n)"

text \<open>\<open>x + 1\<close>, \<open>x === y\<close>, \<open>x > y\<close> and \<open>x < y\<close> on these values.\<close>

definition addOne :: "jsval \<Rightarrow> jsval" where
  "addOne v = (case v of Num n \<Rightarrow> Num (n + 1) | _ \<Rightarrow> NaN)"

definition strictEq :: "jsval \<Rightarrow> jsval \<Rightarrow> bool" where
  "strictEq a b = (case (a, b) of
       (Num m, Num n) \<Rightarrow> m = n
     | (Undefined, Undefined) \<Rightarrow> True
     | _ \<Rightarrow> False)"



text \<open>\<open>parts[i]\<close>\<close>

definition at :: "jsval list \<Rightarrow> nat \<Rightarrow> jsval" where
  "at parts i = (if i < length parts then parts ! i else Undefined)"

text \<open>\<open>s.split(sep)\<close> for a separator of one character: never an empty array.\<close>

fun split :: "char \<Rightarrow> string \<Rightarrow> string list" where
  "split sep [] = [[]]"
| "split sep (c # cs) =
     (if c = sep then [] # split sep cs
      else (case split sep cs of [] \<Rightarrow> [[c]] | p # ps \<Rightarrow> (c # p) # ps))"

text \<open>\<open>s.replace(/^v/, "")\<close>\<close>

definition stripV :: "string \<Rightarrow> string" where
  "stripV s = (case s of [] \<Rightarrow> [] | c # cs \<Rightarrow> if c = CHR ''v'' then cs else s)"

section \<open>Regular expressions\<close>

text \<open>
  The fragment of regular expressions that the source uses: a character class,
  one or more characters of a class, sequence, and an optional group.  \<open>rests r s\<close>
  lists what remains of \<open>s\<close> after each way of matching \<open>r\<close> at its start, and an
  expression anchored by \<open>^\<close> and \<open>$\<close> tests true when nothing can remain.
\<close>

datatype regex =
    Cls "char list"
  | Plus "char list"
  | Seq regex regex
  | Opt regex

fun plusRests :: "char list \<Rightarrow> string \<Rightarrow> string list" where
  "plusRests cs [] = []"
| "plusRests cs (c # s) = (if c \<in> set cs then s # plusRests cs s else [])"

fun rests :: "regex \<Rightarrow> string \<Rightarrow> string list" where
  "rests (Cls cs) s = (case s of [] \<Rightarrow> [] | c # t \<Rightarrow> if c \<in> set cs then [t] else [])"
| "rests (Plus cs) s = plusRests cs s"
| "rests (Seq r1 r2) s = concat (map (rests r2) (rests r1 s))"
| "rests (Opt r) s = s # rests r s"

definition test :: "regex \<Rightarrow> string \<Rightarrow> bool" where
  "test r s = ([] \<in> set (rests r s))"

section \<open>VersionUtils\<close>

text \<open>\<open>/^\d+\.\d+\.\d+(-[\w.-]+)?(\+[\w.-]+)?$/\<close>\<close>

definition suffixChars :: "char list" where
  "suffixChars = wordChars @ ''.-''"

definition semverRegex :: regex where
  "semverRegex =
     Seq (Plus digitChars) (Seq (Cls ''.'')
    (Seq (Plus digitChars) (Seq (Cls ''.'')
    (Seq (Plus digitChars)
    (Seq (Opt (Seq (Cls ''-'') (Plus suffixChars)))
         (Opt (Seq (Cls ''+'') (Plus suffixChars))))))))"

definition isValidSemver :: "string \<Rightarrow> bool" where
  "isValidSemver version = (let cleanVersion = stripV version in test semverRegex cleanVersion)"








section \<open>The facts fetched from GitHub\<close>

text \<open>
  \<open>GitHubAPI.request\<close> either returns the parsed response or throws.  One field per
  endpoint that the release checks call gives the outcome of that request;
  \<open>getPackageJson\<close> is given by its own outcome (the decoded manifest with the line
  of its version field, or the error it throws).  The version of a manifest is
  its \<open>version\<close> field when that is a string, and \<open>None\<close> when the field is absent.
\<close>

datatype error = ApiError | PackageJsonNotFound | TypeError

record commit =
  commit_sha :: string
  commit_message :: string

record comparison =
  comparison_commits :: "commit list option"

record manifest =
  manifest_version :: "string option"
  manifest_versionLineNumber :: "nat option"

record github =
  branchRequest :: "string \<Rightarrow> string \<Rightarrow> string \<Rightarrow> error + unit"
  compareRequest :: "string \<Rightarrow> string \<Rightarrow> string \<Rightarrow> string \<Rightarrow> error + comparison"
  getPackageJson :: "string \<Rightarrow> string \<Rightarrow> string \<Rightarrow> error + manifest"

definition checkBranchExists :: "github \<Rightarrow> string \<Rightarrow> string \<Rightarrow> string \<Rightarrow> bool" where
  "checkBranchExists api owner repo branchName =
     (case branchRequest api owner repo branchName of Inr _ \<Rightarrow> True | Inl _ \<Rightarrow> False)"

text \<open>\<open>compareCommits\<close> returns \<open>null\<close>, here \<open>None\<close>, when the request throws.\<close>

definition compareCommits :: "github \<Rightarrow> string \<Rightarrow> string \<Rightarrow> string \<Rightarrow> string \<Rightarrow> comparison option" where
  "compareCommits api owner repo base head =
     (case compareRequest api owner repo base head of Inr c \<Rightarrow> Some c | Inl _ \<Rightarrow> None)"

section \<open>ReleaseApp\<close>

text \<open>
  The state of the application: its fields \<open>currentRepo\<close> and \<open>releases\<close> (both
  \<open>null\<close> until a repository is analysed) and the parts of the page that the
  release steps and the release checks read and write, each named after the
  identifier of its element.  The page is assumed to have these elements.
\<close>

record release =
  tag_name :: string
  prerelease :: bool

record check_item =
  className :: string
  innerHTML :: string

record app =
  currentRepo :: "(string \<times> string) option"
  releases :: "release list option"
  target_release_version :: string
  from_prerelease_version :: string
  create_release_branch_command :: string
  target_version :: string
  push_release_branch_command :: string
  create_release_link :: string
  step_instruction :: string
  release_process_hidden :: bool
  release_branch_exists_check :: check_item
  package_version_check :: check_item
  github_release_published_check :: check_item
  cherry_picked_commits_info :: string
  cherry_picked_commits_list :: "string list"
  github_compare_link :: string

text \<open>\<open>s.trim()\<close>, on characters below 256.\<close>

definition whiteSpace :: "char list" where
  "whiteSpace = [CHR 0x09, CHR 0x0A, CHR 0x0B, CHR 0x0C, CHR 0x0D, CHR 0x20, CHR 0xA0]"

definition trim :: "string \<Rightarrow> string" where
  "trim s = rev (dropWhile (\<lambda>c. c \<in> set whiteSpace) (rev (dropWhile (\<lambda>c. c \<in> set whiteSpace) s)))"

text \<open>\<open>s.endsWith(t)\<close>\<close>

definition endsWith :: "string \<Rightarrow> string \<Rightarrow> bool" where
  "endsWith s t = (length t \<le> length s \<and> drop (length s - length t) s = t)"

text \<open>
  \<open>new URLSearchParams({tag: a, target: b}).toString()\<close>: letters, digits and
  \<open>*-._\<close> stay, a space becomes a plus sign, and every other character is
  written as the bytes of its UTF-8 encoding in hexadecimal.
\<close>

definition hexDigits :: "char list" where
  "hexDigits = ''0123456789ABCDEF''"

definition percentByte :: "nat \<Rightarrow> string" where
  "percentByte b = [CHR ''%'', hexDigits ! (b div 16), hexDigits ! (b mod 16)]"

definition formEncodeChar :: "char \<Rightarrow> string" where
  "formEncodeChar c =
     (if c \<in> set (wordChars @ ''*-.'') then [c]
      else if c = CHR '' '' then ''+''
      else if (of_char c :: nat) < 128 then percentByte (of_char c)
      else percentByte (192 + of_char c div 64) @ percentByte (128 + of_char c mod 64))"

definition formEncode :: "string \<Rightarrow> string" where
  "formEncode s = concat (map formEncodeChar s)"

definition releaseParams :: "string \<Rightarrow> string \<Rightarrow> string" where
  "releaseParams tag target = ''tag='' @ formEncode tag @ ''&target='' @ formEncode target"

text \<open>\<open>array[i]\<close> on an array of strings, and \<open>parseInt\<close> of what it gives.\<close>

definition pieceAt :: "string list \<Rightarrow> nat \<Rightarrow> string option" where
  "pieceAt pieces i = (if i < length pieces then Some (pieces ! i) else None)"

definition parseIntPiece :: "string option \<Rightarrow> jsval" where
  "parseIntPiece piece = (case piece of None \<Rightarrow> NaN | Some s \<Rightarrow> parseInt s)"

text \<open>A string or \<open>undefined\<close> inside a template literal.\<close>

definition textOf :: "string option \<Rightarrow> string" where
  "textOf piece = (case piece of None \<Rightarrow> ''undefined'' | Some s \<Rightarrow> s)"

definition latestReleaseTag :: "release list \<Rightarrow> string" where
  "latestReleaseTag rs =
     (let vscodeReleases = filter (\<lambda>release. endsWith (tag_name release) ''-vscode'') rs
      in case find (\<lambda>release. \<not> prerelease release) vscodeReleases of
           Some latestRelease \<Rightarrow> tag_name latestRelease
         | None \<Rightarrow> ''latest release'')"

text \<open>
  \<open>generateReleaseSteps\<close> writes the commands first and then reads \<open>currentRepo\<close>
  and \<open>releases\<close>; reading a field of \<open>null\<close> throws, and what was written before
  stays.  The result is the error thrown, if any, and the state.
\<close>

definition generateReleaseSteps :: "string \<Rightarrow> app \<Rightarrow> error option \<times> app" where
  \<open>generateReleaseSteps version st =
     (let cleanVersion = stripV version;
          fromVersionInput = trim (from_prerelease_version st);
          baseBranch =
            (if fromVersionInput \<noteq> [] then fromVersionInput
             else ''v'' @ textOf (pieceAt (split CHR ''.'' cleanVersion) 0) @ ''.''
                  @ toStr (addOne (parseIntPiece (pieceAt (split CHR ''.'' cleanVersion) 1)))
                  @ ''.x-vscode'');
          st1 = st\<lparr>create_release_branch_command :=
                      ''git checkout -b '' @ version @ ''-vscode-release '' @ baseBranch,
                    target_version := cleanVersion,
                    push_release_branch_command :=
                      ''git push origin '' @ version @ ''-vscode-release''\<rparr>
      in case currentRepo st of
           None \<Rightarrow> (Some TypeError, st1)
         | Some (owner, repo) \<Rightarrow>
             (let releaseUrl = ''https://github.com/'' @ owner @ ''/'' @ repo @ ''/releases/new?''
                     @ releaseParams (version @ ''-vscode'') (version @ ''-vscode-release'');
                  st2 = st1\<lparr>create_release_link := releaseUrl\<rparr>
              in case releases st of
                   None \<Rightarrow> (Some TypeError, st2)
                 | Some rs \<Rightarrow>
                     (None, st2\<lparr>step_instruction :=
                        ''This will open GitHub, select Previous tag: '' @ latestReleaseTag rs
                        @ '', click "Generate release notes" and "Publish release"!''\<rparr>)))\<close>

definition updateStatus :: "bool \<Rightarrow> string \<Rightarrow> check_item \<Rightarrow> check_item" where
  "updateStatus isValid message checkElement =
     checkElement\<lparr>className := (if isValid then ''check-item success'' else ''check-item danger''),
                  innerHTML := message\<rparr>"

definition hideCherryPickInfo :: "app \<Rightarrow> app" where
  "hideCherryPickInfo st = st\<lparr>cherry_picked_commits_info := ''none''\<rparr>"

definition commitItem :: "string \<Rightarrow> string \<Rightarrow> commit \<Rightarrow> string" where
  \<open>commitItem owner repo c =
     (let shortSha = take 7 (commit_sha c);
          message = hd (split CHR 0x0A (commit_message c));
          commitUrl = ''https://github.com/'' @ owner @ ''/'' @ repo @ ''/commit/'' @ commit_sha c
      in ''<a href="'' @ commitUrl @ ''" target="_blank" class="commit-link">'' @ shortSha
         @ ''</a> '' @ message)\<close>

definition showCherryPickInfo :: "string \<Rightarrow> string \<Rightarrow> string \<Rightarrow> string \<Rightarrow> commit list \<Rightarrow> app \<Rightarrow> app" where
  "showCherryPickInfo owner repo baseBranch releaseBranch cs st =
     st\<lparr>cherry_picked_commits_list :=
          (if length cs = 0 then [''None''] else map (commitItem owner repo) cs),
        github_compare_link :=
          ''https://github.com/'' @ owner @ ''/'' @ repo @ ''/compare/'' @ baseBranch
          @ ''...'' @ releaseBranch,
        cherry_picked_commits_info := ''block''\<rparr>"

text \<open>What \<open>checkCherryPickedCommits\<close> does with the comparison once it has it.\<close>

definition showComparison :: "string \<Rightarrow> string \<Rightarrow> string \<Rightarrow> string \<Rightarrow> comparison option \<Rightarrow> app \<Rightarrow> app" where
  "showComparison owner repo baseBranch releaseBranchName comparison st =
     (case comparison of
        Some c \<Rightarrow>
          (case comparison_commits c of
             Some cs \<Rightarrow>
               if length cs > 0
               then showCherryPickInfo owner repo baseBranch releaseBranchName cs st
               else showCherryPickInfo owner repo baseBranch releaseBranchName [] st
           | None \<Rightarrow> showCherryPickInfo owner repo baseBranch releaseBranchName [] st)
      | None \<Rightarrow> showCherryPickInfo owner repo baseBranch releaseBranchName [] st)"

definition checkCherryPickedCommits :: "github \<Rightarrow> string \<Rightarrow> string \<Rightarrow> string \<Rightarrow> string \<Rightarrow> app \<Rightarrow> app" where
  "checkCherryPickedCommits api owner repo version releaseBranchName st =
     (let fromVersionInput = trim (from_prerelease_version st) in
      if fromVersionInput = [] then hideCherryPickInfo st
      else
        (let baseBranch = fromVersionInput;
             comparison = compareCommits api owner repo baseBranch releaseBranchName
         in showComparison owner repo baseBranch releaseBranchName comparison st))"

definition checkGitHubReleaseExists :: "string \<Rightarrow> string \<Rightarrow> string \<Rightarrow> app \<Rightarrow> app" where
  \<open>checkGitHubReleaseExists owner repo version st =
     (let targetReleaseTag = version @ ''-vscode'' in
      case releases st of
        None \<Rightarrow>
          st\<lparr>github_release_published_check :=
               updateStatus False ''Error checking GitHub release status''
                 (github_release_published_check st)\<rparr>
      | Some rs \<Rightarrow>
          (case find (\<lambda>release. tag_name release = targetReleaseTag) rs of
             Some targetRelease \<Rightarrow>
               (let releaseUrl = ''https://github.com/'' @ owner @ ''/'' @ repo
                      @ ''/releases/tag/'' @ targetReleaseTag
                in st\<lparr>github_release_published_check :=
                     updateStatus True
                       (''<a href="'' @ releaseUrl @ ''" target="_blank" class="release-link">Release ''
                        @ targetReleaseTag @ '' published</a>'')
                       (github_release_published_check st)\<rparr>)
           | None \<Rightarrow>
               st\<lparr>github_release_published_check :=
                    updateStatus False (''GitHub release '' @ targetReleaseTag @ '' not found'')
                      (github_release_published_check st)\<rparr>))\<close>

definition releaseBranchNameOf :: "string \<Rightarrow> string" where
  "releaseBranchNameOf version = version @ ''-vscode-release''"

definition resetChecks :: "app \<Rightarrow> app" where
  "resetChecks st =
     st\<lparr>release_branch_exists_check := (release_branch_exists_check st)\<lparr>className := ''check-item''\<rparr>,
        package_version_check := (package_version_check st)\<lparr>className := ''check-item''\<rparr>,
        github_release_published_check :=
          (github_release_published_check st)\<lparr>className := ''check-item''\<rparr>\<rparr>"

definition packageJsonUrl :: "string \<Rightarrow> string \<Rightarrow> string \<Rightarrow> manifest \<Rightarrow> string" where
  "packageJsonUrl owner repo releaseBranchName branchPackageJson =
     (let packageJsonPath =
            (if owner = ''continuedev'' \<and> repo = ''continue''
             then ''extensions/vscode/package.json'' else ''package.json'');
          url = ''https://github.com/'' @ owner @ ''/'' @ repo @ ''/blob/'' @ releaseBranchName
                @ ''/'' @ packageJsonPath
      in case manifest_versionLineNumber branchPackageJson of
           None \<Rightarrow> url
         | Some n \<Rightarrow> if n = 0 then url else url @ ''#L'' @ showNat n)"

text \<open>Step 2 of \<open>checkReleaseSteps\<close>: the version of the manifest on the release branch.\<close>

definition checkPackageVersion :: "string \<Rightarrow> string \<Rightarrow> string \<Rightarrow> string \<Rightarrow> error + manifest \<Rightarrow> app \<Rightarrow> app" where
  \<open>checkPackageVersion owner repo version releaseBranchName fetched st =
     (case fetched of
        Inr branchPackageJson \<Rightarrow>
          (let expectedVersion = stripV version;
               actualVersion = manifest_version branchPackageJson;
               url = packageJsonUrl owner repo releaseBranchName branchPackageJson
           in if actualVersion = Some expectedVersion
              then st\<lparr>package_version_check :=
                     updateStatus True
                       (''<a href="'' @ url @ ''" target="_blank" class="branch-link">package.json version == v''
                        @ expectedVersion @ ''</a>'')
                       (package_version_check st)\<rparr>
              else st\<lparr>package_version_check :=
                     updateStatus False
                       (''<a href="'' @ url @ ''" target="_blank" class="branch-link">package.json version != v''
                        @ expectedVersion @ ''</a> (currently v'' @ textOf actualVersion @ '')'')
                       (package_version_check st)\<rparr>)
      | Inl _ \<Rightarrow>
          st\<lparr>package_version_check :=
               updateStatus False ''Error checking package.json version'' (package_version_check st)\<rparr>)\<close>

text \<open>Step 1 of \<open>checkReleaseSteps\<close>, for a branch that exists and for one that does not.\<close>

definition branchFound :: "string \<Rightarrow> string \<Rightarrow> string \<Rightarrow> app \<Rightarrow> app" where
  \<open>branchFound owner repo releaseBranchName st =
     (let branchUrl = ''https://github.com/'' @ owner @ ''/'' @ repo @ ''/tree/'' @ releaseBranchName
      in st\<lparr>release_branch_exists_check :=
              updateStatus True
                (''<a href="'' @ branchUrl @ ''" target="_blank" class="branch-link">Branch ''
                 @ releaseBranchName @ '' found</a>'')
                (release_branch_exists_check st)\<rparr>)\<close>

definition branchMissing :: "app \<Rightarrow> app" where
  "branchMissing st =
     hideCherryPickInfo
       (st\<lparr>release_branch_exists_check :=
              updateStatus False ''Release branch missing, run command to create branch''
                (release_branch_exists_check st),
            package_version_check :=
              updateStatus False ''Release branch not created'' (package_version_check st)\<rparr>)"

text \<open>
  \<open>checkReleaseSteps\<close>, with every request answered when it is made.  The outer
  \<open>catch\<close> of the source is not reached: \<open>checkBranchExists\<close> does not throw and the
  inner blocks catch their own errors.
\<close>

definition checkReleaseSteps :: "github \<Rightarrow> string \<Rightarrow> app \<Rightarrow> app" where
  "checkReleaseSteps api version st =
     (case currentRepo st of
        None \<Rightarrow> st
      | Some (owner, repo) \<Rightarrow>
          (let releaseBranchName = releaseBranchNameOf version;
               st1 = resetChecks st;
               branchExists = checkBranchExists api owner repo releaseBranchName;
               st2 =
                 (if branchExists then
                    (let st3 = branchFound owner repo releaseBranchName st1;
                         st4 = checkPackageVersion owner repo version releaseBranchName
                                 (getPackageJson api owner repo releaseBranchName) st3
                     in checkCherryPickedCommits api owner repo version releaseBranchName st4)
                  else branchMissing st1)
           in checkGitHubReleaseExists owner repo version st2))"

definition showSection_release_process :: "app \<Rightarrow> app" where
  "showSection_release_process st = st\<lparr>release_process_hidden := False\<rparr>"

text \<open>
  \<open>validateVersion\<close>, the handler of an edit of either version field.  When
  \<open>generateReleaseSteps\<close> throws, the handler stops there.
\<close>

definition validateVersion :: "github \<Rightarrow> app \<Rightarrow> app" where
  "validateVersion api st =
     (let versionInput = trim (target_release_version st) in
      if versionInput \<noteq> [] \<and> isValidSemver versionInput then
        (case generateReleaseSteps versionInput st of
           (Some e, st1) \<Rightarrow> st1
         | (None, st1) \<Rightarrow> checkReleaseSteps api versionInput (showSection_release_process st1))
      else st)"

section \<open>Evaluations that overlap\<close>

text \<open>
  \<open>checkReleaseSteps\<close> is asynchronous: it runs until it awaits a request and
  goes on when the answer arrives, and the handler \<open>validateVersion\<close> does not
  wait for it.  An evaluation in flight is the request it awaits with the
  variables it still needs; \<open>resume\<close> is the code that runs when the answer
  arrives, up to the next request or the end.
\<close>

datatype pending =
    AwaitBranch string string string
  | AwaitPackageJson string string string
  | AwaitCompare string string string string

datatype response =
    BranchResponse "error + unit"
  | PackageJsonResponse "error + manifest"
  | CompareResponse "error + comparison"

definition startCheckReleaseSteps :: "string \<Rightarrow> app \<Rightarrow> app \<times> pending option" where
  "startCheckReleaseSteps version st =
     (case currentRepo st of
        None \<Rightarrow> (st, None)
      | Some (owner, repo) \<Rightarrow> (resetChecks st, Some (AwaitBranch owner repo version)))"

fun resume :: "pending \<Rightarrow> response \<Rightarrow> app \<Rightarrow> app \<times> pending option" where
  "resume (AwaitBranch owner repo version) (BranchResponse r) st =
     (let releaseBranchName = releaseBranchNameOf version;
          branchExists = (case r of Inr _ \<Rightarrow> True | Inl _ \<Rightarrow> False)
      in if branchExists
         then (branchFound owner repo releaseBranchName st, Some (AwaitPackageJson owner repo version))
         else (checkGitHubReleaseExists owner repo version (branchMissing st), None))"
| "resume (AwaitPackageJson owner repo version) (PackageJsonResponse r) st =
     (let releaseBranchName = releaseBranchNameOf version;
          st4 = checkPackageVersion owner repo version releaseBranchName r st;
          fromVersionInput = trim (from_prerelease_version st4)
      in if fromVersionInput = []
         then (checkGitHubReleaseExists owner repo version (hideCherryPickInfo st4), None)
         else (st4, Some (AwaitCompare owner repo fromVersionInput version)))"
| "resume (AwaitCompare owner repo baseBranch version) (CompareResponse r) st =
     (let comparison = (case r of Inr c \<Rightarrow> Some c | Inl _ \<Rightarrow> None)
      in (checkGitHubReleaseExists owner repo version
            (showComparison owner repo baseBranch (releaseBranchNameOf version) comparison st),
          None))"
| "resume p r st = (st, Some p)"

text \<open>The answer that a given GitHub gives to the awaited request.\<close>

fun answer :: "github \<Rightarrow> pending \<Rightarrow> response" where
  "answer api (AwaitBranch owner repo version) =
     BranchResponse (branchRequest api owner repo (releaseBranchNameOf version))"
| "answer api (AwaitPackageJson owner repo version) =
     PackageJsonResponse (getPackageJson api owner repo (releaseBranchNameOf version))"
| "answer api (AwaitCompare owner repo baseBranch version) =
     CompareResponse (compareRequest api owner repo baseBranch (releaseBranchNameOf version))"

definition answered :: "github \<Rightarrow> app \<times> pending option \<Rightarrow> app \<times> pending option" where
  "answered api x = (case x of (st, None) \<Rightarrow> (st, None) | (st, Some p) \<Rightarrow> resume p (answer api p) st)"

text \<open>
  The page with the evaluations that have started, in the order in which they
  started: an evaluation in flight, or \<open>None\<close> for one that has ended.  The events
  are an edit of a version field, which runs the handler up to the first request
  of a new evaluation, and the arrival of the answer for the \<open>i\<close>-th evaluation.
\<close>

datatype event = EditTarget string | EditFrom string | Arrive nat response

definition startValidateVersion :: "app \<Rightarrow> app \<times> pending option" where
  "startValidateVersion st =
     (let versionInput = trim (target_release_version st) in
      if versionInput \<noteq> [] \<and> isValidSemver versionInput then
        (case generateReleaseSteps versionInput st of
           (Some e, st1) \<Rightarrow> (st1, None)
         | (None, st1) \<Rightarrow> startCheckReleaseSteps versionInput (showSection_release_process st1))
      else (st, None))"

definition started :: "app \<times> pending option \<Rightarrow> pending option list \<Rightarrow> app \<times> pending option list" where
  "started x evaluations =
     (case x of (st, None) \<Rightarrow> (st, evaluations) | (st, Some p) \<Rightarrow> (st, evaluations @ [Some p]))"

fun fire :: "event \<Rightarrow> app \<times> pending option list \<Rightarrow> app \<times> pending option list" where
  "fire (EditTarget text) (st, evaluations) =
     started (startValidateVersion (st\<lparr>target_release_version := text\<rparr>)) evaluations"
| "fire (EditFrom text) (st, evaluations) =
     started (startValidateVersion (st\<lparr>from_prerelease_version := text\<rparr>)) evaluations"
| "fire (Arrive i r) (st, evaluations) =
     (if i < length evaluations then
        (case evaluations ! i of
           None \<Rightarrow> (st, evaluations)
         | Some p \<Rightarrow> (case resume p r st of (st1, rest) \<Rightarrow> (st1, evaluations[i := rest])))
      else (st, evaluations))"

definition run :: "event list \<Rightarrow> app \<times> pending option list \<Rightarrow> app \<times> pending option list" where
  "run events c = foldl (\<lambda>c e. fire e c) c events"

section \<open>The version grammar and ordering of the specification\<close>

text \<open>
  The specification's numeric-triple pattern, written out: three non-empty runs of
  digits separated by dots, then an optional pre-release suffix (a hyphen and a
  non-empty run of word characters, dots and hyphens) and an optional build
  suffix (a plus sign and such a run).
\<close>

definition isDigits :: "string \<Rightarrow> bool" where
  "isDigits s = (s \<noteq> [] \<and> list_all isDigit s)"

definition isSuffixBody :: "string \<Rightarrow> bool" where
  "isSuffixBody w = (w \<noteq> [] \<and> list_all (\<lambda>c. c \<in> set suffixChars) w)"

definition optSuffix :: "char \<Rightarrow> string \<Rightarrow> bool" where
  "optSuffix mark s = (case s of [] \<Rightarrow> True | c # w \<Rightarrow> c = mark \<and> isSuffixBody w)"

definition tripleForm :: "string \<Rightarrow> string \<Rightarrow> string \<Rightarrow> string \<Rightarrow> string \<Rightarrow> string \<Rightarrow> bool" where
  "tripleForm t x y z pre bld =
     (t = x @ ''.'' @ y @ ''.'' @ z @ pre @ bld
      \<and> isDigits x \<and> isDigits y \<and> isDigits z
      \<and> optSuffix CHR ''-'' pre \<and> optSuffix CHR ''+'' bld)"


text \<open>
  The (major, minor, patch) projection of a version string and the suffix that
  follows the triple, read off the string from the left after one leading
  \<open>v\<close> is removed.
\<close>

definition afterRun :: "string \<Rightarrow> string" where
  "afterRun t = drop 1 (dropWhile isDigit t)"

definition versionTriple :: "string \<Rightarrow> nat \<times> nat \<times> nat" where
  "versionTriple s =
     (let t = stripV s
      in (decimal (takeWhile isDigit t),
          decimal (takeWhile isDigit (afterRun t)),
          decimal (takeWhile isDigit (afterRun (afterRun t)))))"

definition versionSuffix :: "string \<Rightarrow> string" where
  "versionSuffix s = dropWhile isDigit (afterRun (afterRun (stripV s)))"

text \<open>The specification's \<open>format(M, m, p)\<close>: the three numbers in decimal, joined by dots.\<close>

definition format :: "nat \<Rightarrow> nat \<Rightarrow> nat \<Rightarrow> string" where
  "format M m p = showNat M @ ''.'' @ showNat m @ ''.'' @ showNat p"


text \<open>Lexicographic comparison of triples, by the lexicographic order on products.\<close>

definition lexCompare :: "nat \<times> nat \<times> nat \<Rightarrow> nat \<times> nat \<times> nat \<Rightarrow> int" where
  "lexCompare a b = (if a < b then - 1 else if b < a then 1 else 0)"


section \<open>An example page and an example GitHub\<close>

text \<open>
  A page with empty fields and unevaluated checks, for a repository that has been
  analysed, and a GitHub on which every branch exists, no comparison succeeds and
  every manifest has the given version.
\<close>

definition analysedApp :: "string \<Rightarrow> string \<Rightarrow> release list \<Rightarrow> app" where
  "analysedApp owner repo rs =
     \<lparr>currentRepo = Some (owner, repo), releases = Some rs,
      target_release_version = [], from_prerelease_version = [],
      create_release_branch_command = [], target_version = [],
      push_release_branch_command = [], create_release_link = [], step_instruction = [],
      release_process_hidden = True,
      release_branch_exists_check = \<lparr>className = ''check-item'', innerHTML = []\<rparr>,
      package_version_check = \<lparr>className = ''check-item'', innerHTML = []\<rparr>,
      github_release_published_check = \<lparr>className = ''check-item'', innerHTML = []\<rparr>,
      cherry_picked_commits_info = ''none'', cherry_picked_commits_list = [],
      github_compare_link = []\<rparr>"

definition githubWithManifest :: "string \<Rightarrow> github" where
  "githubWithManifest v =
     \<lparr>branchRequest = (\<lambda>owner repo branch. Inr ()),
      compareRequest = (\<lambda>owner repo base head. Inl ApiError),
      getPackageJson = (\<lambda>owner repo branch.
         Inr \<lparr>manifest_version = Some v, manifest_versionLineNumber = None\<rparr>)\<rparr>"

section \<open>The language of a regular expression\<close>


section \<open>Properties of the string primitives\<close>






lemma digit_cases: "(d::nat) < 10 \<Longrightarrow> d = 0 \<or> d = 1 \<or> d = 2 \<or> d = 3 \<or> d = 4 \<or> d = 5 \<or> d = 6 \<or> d = 7 \<or> d = 8 \<or> d = 9"
  by arith

lemma isDigit_nth: "d < 10 \<Longrightarrow> isDigit (digitChars ! d)"
  by (drule digit_cases) (elim disjE; simp add: isDigit_def digitChars_def)

lemma digitVal_nth: "d < 10 \<Longrightarrow> digitVal (digitChars ! d) = d"
  by (drule digit_cases) (elim disjE; simp add: digitVal_def digitChars_def)

lemma decimal_snoc: "decimal (s @ [c]) = 10 * decimal s + digitVal c"
  by (simp add: decimal_def)

lemma showNat_digits: "list_all isDigit (showNat n)"
proof (induction n rule: showNat.induct)
  case (1 n)
  show ?case
  proof (cases "n < 10")
    case True
    then show ?thesis by (subst showNat.simps) (simp add: isDigit_nth)
  next
    case False
    with 1 show ?thesis by (subst showNat.simps) (simp add: isDigit_nth)
  qed
qed

lemma showNat_nonempty: "showNat n \<noteq> []"
  by (subst showNat.simps) simp

lemma decimal_showNat: "decimal (showNat n) = n"
proof (induction n rule: showNat.induct)
  case (1 n)
  show ?case
  proof (cases "n < 10")
    case True
    then show ?thesis by (subst showNat.simps) (simp add: decimal_def digitVal_nth)
  next
    case False
    with 1 show ?thesis
      by (subst showNat.simps) (simp add: decimal_snoc digitVal_nth)
  qed
qed






section \<open>The validator accepts exactly the version grammar\<close>







section \<open>The pieces of a valid version\<close>



lemma not_isDigit_marks [simp]:
  "\<not> isDigit CHR ''.''" "\<not> isDigit CHR ''-''" "\<not> isDigit CHR ''+''"
  by (simp_all add: isDigit_def digitChars_def)


lemma takeWhile_digits: "isDigits x \<Longrightarrow> \<not> isDigit c \<Longrightarrow> takeWhile isDigit (x @ c # r) = x"
  by (simp add: isDigits_def list_all_iff takeWhile_tail)

lemma takeWhile_digits_end: "isDigits x \<Longrightarrow> takeWhile isDigit x = x"
  by (simp add: isDigits_def list_all_iff)

lemma dropWhile_digits: "isDigits x \<Longrightarrow> \<not> isDigit c \<Longrightarrow> dropWhile isDigit (x @ c # r) = c # r"
  by (simp add: isDigits_def list_all_iff)

lemma dropWhile_digits_end: "isDigits x \<Longrightarrow> dropWhile isDigit x = []"
  by (simp add: isDigits_def list_all_iff)

lemma afterRun_digits: "isDigits x \<Longrightarrow> \<not> isDigit c \<Longrightarrow> afterRun (x @ c # r) = r"
  by (simp add: afterRun_def dropWhile_digits)



text \<open>The three shapes of the suffix of a version.\<close>

lemma suffix_shapes:
  assumes "optSuffix CHR ''-'' pre" "optSuffix CHR ''+'' bld"
  shows "(pre = [] \<and> bld = []) \<or> (\<exists>w. pre = CHR ''-'' # w) \<or> (pre = [] \<and> (\<exists>w. bld = CHR ''+'' # w))"
  using assms by (auto simp: optSuffix_def split: list.splits)

lemma versionTriple_form:
  assumes "tripleForm (stripV s) x y z pre bld"
  shows "versionTriple s = (decimal x, decimal y, decimal z)" and "versionSuffix s = pre @ bld"
proof -
  from assms have t: "stripV s = x @ CHR ''.'' # y @ CHR ''.'' # z @ pre @ bld"
    and d: "isDigits x" "isDigits y" "isDigits z"
    and p: "optSuffix CHR ''-'' pre" "optSuffix CHR ''+'' bld"
    by (simp_all add: tripleForm_def)
  have a1: "afterRun (stripV s) = y @ CHR ''.'' # z @ pre @ bld"
    using d by (simp add: t afterRun_digits)
  have a2: "afterRun (afterRun (stripV s)) = z @ pre @ bld"
    using d by (simp add: a1 afterRun_digits)
  have z: "takeWhile isDigit (z @ pre @ bld) = z \<and> dropWhile isDigit (z @ pre @ bld) = pre @ bld"
    using suffix_shapes[OF p] d(3)
    by (auto simp: takeWhile_digits takeWhile_digits_end dropWhile_digits dropWhile_digits_end)
  have a0: "takeWhile isDigit (stripV s) = x"
    using d by (simp add: t takeWhile_digits)
  have a1': "takeWhile isDigit (afterRun (stripV s)) = y"
    using d by (simp add: a1 takeWhile_digits)
  show "versionTriple s = (decimal x, decimal y, decimal z)"
    using z by (simp add: versionTriple_def Let_def a0 a1' a2)
  show "versionSuffix s = pre @ bld"
    using z by (simp add: versionSuffix_def a2)
qed





section \<open>Comparing versions\<close>

lemma isDigits_showNat: "isDigits (showNat n)"
  by (simp add: isDigits_def showNat_digits showNat_nonempty)

lemma showNat_0: "showNat 0 = ''0''"
  by (subst showNat.simps) (simp add: digitChars_def)

lemma stripV_v: "stripV (CHR ''v'' # t) = t"
  by (simp add: stripV_def)

lemma stripV_digits: "isDigits x \<Longrightarrow> stripV (x @ r) = x @ r"
  by (cases x) (auto simp: stripV_def isDigits_def isDigit_def digitChars_def)


lemma tripleForm_format:
  assumes "optSuffix CHR ''-'' pre" "optSuffix CHR ''+'' bld"
  shows "tripleForm (format M m p @ pre @ bld) (showNat M) (showNat m) (showNat p) pre bld"
  using assms by (simp add: tripleForm_def format_def isDigits_showNat)

lemma stripV_format: "stripV (format M m p @ r) = format M m p @ r"
  using stripV_digits[OF isDigits_showNat, of M] by (simp add: format_def)

lemma versionTriple_format:
  assumes "optSuffix CHR ''-'' pre" "optSuffix CHR ''+'' bld"
  shows "versionTriple (format M m p @ pre @ bld) = (M, m, p)"
    and "versionTriple (''v'' @ format M m p @ pre @ bld) = (M, m, p)"
proof -
  note f = tripleForm_format[OF assms, of M m p]
  from f have "tripleForm (stripV (format M m p @ pre @ bld)) (showNat M) (showNat m) (showNat p) pre bld"
    by (simp only: stripV_format)
  from versionTriple_form(1)[OF this]
  show "versionTriple (format M m p @ pre @ bld) = (M, m, p)"
    by (simp add: decimal_showNat)
  from f have "tripleForm (stripV (''v'' @ format M m p @ pre @ bld)) (showNat M) (showNat m) (showNat p) pre bld"
    by (simp add: stripV_v)
  from versionTriple_form(1)[OF this]
  show "versionTriple (''v'' @ format M m p @ pre @ bld) = (M, m, p)"
    by (simp add: decimal_showNat)
qed


lemma lexCompare_components:
  "lexCompare (M, m, p) (M', m', p') =
     (if M < M' then - 1 else if M' < M then 1
      else if m < m' then - 1 else if m' < m then 1
      else if p < p' then - 1 else if p' < p then 1 else 0)"
  by (auto simp: lexCompare_def less_prod_def)






section \<open>Successor versions and the validator\<close>


lemma at_triple [simp]:
  "at (a # r) 0 = a" "at (a # b # r) 1 = b" "at (a # b # r) (Suc 0) = b" "at (a # b # c # r) 2 = c"
  by (simp_all add: at_def)

lemma strictEq_simps [simp]:
  "strictEq (Num a) (Num b) \<longleftrightarrow> a = b"
  "\<not> strictEq NaN v" "\<not> strictEq v NaN"
  by (simp_all add: strictEq_def split: jsval.splits)

lemma addOne_simps [simp]: "addOne (Num n) = Num (n + 1)" "addOne NaN = NaN" "addOne Undefined = NaN"
  by (simp_all add: addOne_def)

lemma toStr_simps [simp]: "toStr (Num n) = showNat n" "toStr NaN = ''NaN''"
  by (simp_all add: toStr_def)

lemma format_0: "format a b 0 = showNat a @ ''.'' @ showNat b @ ''.0''"
  "format a 0 0 = showNat a @ ''.0.0''"
  by (simp_all add: format_def showNat_0)


















section \<open>The release checks\<close>

lemma checkGitHubReleaseExists_frame:
  "release_branch_exists_check (checkGitHubReleaseExists owner repo version st) = release_branch_exists_check st"
  "package_version_check (checkGitHubReleaseExists owner repo version st) = package_version_check st"
  "cherry_picked_commits_list (checkGitHubReleaseExists owner repo version st) = cherry_picked_commits_list st"
  "cherry_picked_commits_info (checkGitHubReleaseExists owner repo version st) = cherry_picked_commits_info st"
  by (simp_all add: checkGitHubReleaseExists_def Let_def split: option.splits)

lemma checkGitHubReleaseExists_evaluated:
  "className (github_release_published_check (checkGitHubReleaseExists owner repo version st))
     \<in> {''check-item success'', ''check-item danger''}"
  by (simp add: checkGitHubReleaseExists_def Let_def updateStatus_def split: option.splits)

lemma checkGitHubReleaseExists_depends:
  assumes "releases st = releases st'"
    and "github_release_published_check st = github_release_published_check st'"
  shows "github_release_published_check (checkGitHubReleaseExists owner repo version st)
       = github_release_published_check (checkGitHubReleaseExists owner repo version st')"
  using assms by (simp add: checkGitHubReleaseExists_def Let_def split: option.splits)

lemma showCherryPickInfo_frame:
  "release_branch_exists_check (showCherryPickInfo owner repo b h cs st) = release_branch_exists_check st"
  "package_version_check (showCherryPickInfo owner repo b h cs st) = package_version_check st"
  "github_release_published_check (showCherryPickInfo owner repo b h cs st) = github_release_published_check st"
  "releases (showCherryPickInfo owner repo b h cs st) = releases st"
  by (simp_all add: showCherryPickInfo_def)

lemma hideCherryPickInfo_frame:
  "release_branch_exists_check (hideCherryPickInfo st) = release_branch_exists_check st"
  "package_version_check (hideCherryPickInfo st) = package_version_check st"
  "github_release_published_check (hideCherryPickInfo st) = github_release_published_check st"
  "releases (hideCherryPickInfo st) = releases st"
  by (simp_all add: hideCherryPickInfo_def)

lemma checkCherryPickedCommits_frame:
  "release_branch_exists_check (checkCherryPickedCommits api owner repo version h st) = release_branch_exists_check st"
  "package_version_check (checkCherryPickedCommits api owner repo version h st) = package_version_check st"
  "github_release_published_check (checkCherryPickedCommits api owner repo version h st) = github_release_published_check st"
  "releases (checkCherryPickedCommits api owner repo version h st) = releases st"
  by (simp_all add: checkCherryPickedCommits_def showComparison_def Let_def showCherryPickInfo_frame
      hideCherryPickInfo_frame split: option.splits)

lemma checkPackageVersion_frame:
  "release_branch_exists_check (checkPackageVersion owner repo version h fetched st) = release_branch_exists_check st"
  "github_release_published_check (checkPackageVersion owner repo version h fetched st) = github_release_published_check st"
  "releases (checkPackageVersion owner repo version h fetched st) = releases st"
  "from_prerelease_version (checkPackageVersion owner repo version h fetched st) = from_prerelease_version st"
  by (simp_all add: checkPackageVersion_def Let_def split: sum.splits)

lemma checkCherryPickedCommits_failed:
  assumes "trim (from_prerelease_version st) \<noteq> []"
    and "compareCommits api owner repo (trim (from_prerelease_version st)) h = None"
  shows "cherry_picked_commits_list (checkCherryPickedCommits api owner repo version h st) = [''None'']"
    and "cherry_picked_commits_info (checkCherryPickedCommits api owner repo version h st) = ''block''"
  using assms
  by (simp_all add: checkCherryPickedCommits_def showComparison_def Let_def showCherryPickInfo_def)

lemma checkReleaseSteps_branch_exists:
  assumes "currentRepo st = Some (owner, repo)"
    and "checkBranchExists api owner repo (releaseBranchNameOf version)"
  shows "checkReleaseSteps api version st =
      checkGitHubReleaseExists owner repo version
        (checkCherryPickedCommits api owner repo version (releaseBranchNameOf version)
          (checkPackageVersion owner repo version (releaseBranchNameOf version)
            (getPackageJson api owner repo (releaseBranchNameOf version))
            (branchFound owner repo (releaseBranchNameOf version) (resetChecks st))))"
  using assms by (simp add: checkReleaseSteps_def Let_def)

lemma branchFound_frame:
  "package_version_check (branchFound owner repo h st) = package_version_check st"
  "github_release_published_check (branchFound owner repo h st) = github_release_published_check st"
  "releases (branchFound owner repo h st) = releases st"
  "from_prerelease_version (branchFound owner repo h st) = from_prerelease_version st"
  "className (release_branch_exists_check (branchFound owner repo h st)) = ''check-item success''"
  by (simp_all add: branchFound_def Let_def updateStatus_def)

lemma resetChecks_frame:
  "releases (resetChecks st) = releases st"
  "from_prerelease_version (resetChecks st) = from_prerelease_version st"
  by (simp_all add: resetChecks_def)

text \<open>
  Claim C5, amended.  When the release branch exists and its manifest is fetched
  with a version string, the manifest check passes exactly when that string
  equals the target version without one leading \<open>v\<close>.  The manifest's version is
  compared as it is: no \<open>v\<close> is stripped from it.
\<close>

theorem package_version_check_passes_iff:
  assumes "currentRepo st = Some (owner, repo)"
    and "checkBranchExists api owner repo (releaseBranchNameOf version)"
    and "getPackageJson api owner repo (releaseBranchNameOf version) = Inr pkg"
    and "manifest_version pkg = Some actual"
  shows "className (package_version_check (checkReleaseSteps api version st)) =
           (if actual = stripV version then ''check-item success'' else ''check-item danger'')"
proof -
  have "package_version_check (checkReleaseSteps api version st) =
      package_version_check (checkPackageVersion owner repo version (releaseBranchNameOf version)
            (Inr pkg) (branchFound owner repo (releaseBranchNameOf version) (resetChecks st)))"
    by (simp add: checkReleaseSteps_branch_exists[OF assms(1,2)] checkGitHubReleaseExists_frame
        checkCherryPickedCommits_frame assms(3))
  then show ?thesis
    by (simp add: checkPackageVersion_def Let_def updateStatus_def assms(4))
qed

theorem package_version_check_passes_iff_witness:
  "currentRepo (analysedApp ''o'' ''r'' []) = Some (''o'', ''r'')
   \<and> checkBranchExists (githubWithManifest ''1.2.4'') ''o'' ''r'' (releaseBranchNameOf ''v1.2.4'')
   \<and> className (package_version_check
         (checkReleaseSteps (githubWithManifest ''1.2.4'') ''v1.2.4'' (analysedApp ''o'' ''r'' [])))
       = ''check-item success''"
proof -
  have h: "currentRepo (analysedApp ''o'' ''r'' []) = Some (''o'', ''r'')"
    "checkBranchExists (githubWithManifest ''1.2.4'') ''o'' ''r'' (releaseBranchNameOf ''v1.2.4'')"
    "getPackageJson (githubWithManifest ''1.2.4'') ''o'' ''r'' (releaseBranchNameOf ''v1.2.4'')
       = Inr \<lparr>manifest_version = Some ''1.2.4'', manifest_versionLineNumber = None\<rparr>"
    "manifest_version \<lparr>manifest_version = Some ''1.2.4'', manifest_versionLineNumber = None\<rparr> = Some ''1.2.4''"
    by (simp_all add: analysedApp_def githubWithManifest_def checkBranchExists_def)
  have s: "stripV ''v1.2.4'' = ''1.2.4''" by (simp add: stripV_def)
  from package_version_check_passes_iff[OF h] h(1,2) s show ?thesis by simp
qed

text \<open>
  Claim C5 as stated fails for a manifest whose version starts with \<open>v\<close>: target
  and manifest are both \<open>v1.2.4\<close>, equal after a leading \<open>v\<close> is stripped from both,
  and the check fails.
\<close>

theorem package_version_check_counterexample:
  "stripV ''v1.2.4'' = stripV ''v1.2.4''
   \<and> className (package_version_check
         (checkReleaseSteps (githubWithManifest ''v1.2.4'') ''v1.2.4'' (analysedApp ''o'' ''r'' [])))
       = ''check-item danger''"
  by code_simp

lemma compareCommits_failed:
  "compareRequest api owner repo base h = Inl e \<Longrightarrow> compareCommits api owner repo base h = None"
  by (simp add: compareCommits_def)

lemma checks_independent_of_compare:
  assumes "currentRepo st = Some (owner, repo)"
    and "checkBranchExists api owner repo (releaseBranchNameOf version)"
  shows "release_branch_exists_check (checkReleaseSteps (api\<lparr>compareRequest := other\<rparr>) version st)
           = release_branch_exists_check (checkReleaseSteps api version st)"
    and "package_version_check (checkReleaseSteps (api\<lparr>compareRequest := other\<rparr>) version st)
           = package_version_check (checkReleaseSteps api version st)"
    and "github_release_published_check (checkReleaseSteps (api\<lparr>compareRequest := other\<rparr>) version st)
           = github_release_published_check (checkReleaseSteps api version st)"
proof -
  let ?api = "api\<lparr>compareRequest := other\<rparr>"
  have b: "checkBranchExists ?api owner repo (releaseBranchNameOf version)"
    using assms(2) by (simp add: checkBranchExists_def)
  have p: "getPackageJson ?api = getPackageJson api" by simp
  note u = checkReleaseSteps_branch_exists[OF assms(1) b] checkReleaseSteps_branch_exists[OF assms(1,2)]
  show "release_branch_exists_check (checkReleaseSteps ?api version st)
           = release_branch_exists_check (checkReleaseSteps api version st)"
    by (simp only: u p checkGitHubReleaseExists_frame checkCherryPickedCommits_frame)
  show "package_version_check (checkReleaseSteps ?api version st)
           = package_version_check (checkReleaseSteps api version st)"
    by (simp only: u p checkGitHubReleaseExists_frame checkCherryPickedCommits_frame)
  show "github_release_published_check (checkReleaseSteps ?api version st)
           = github_release_published_check (checkReleaseSteps api version st)"
    unfolding u p
    by (rule checkGitHubReleaseExists_depends) (simp_all only: checkCherryPickedCommits_frame)
qed

text \<open>
  Claim C6.  In an evaluation where the release branch exists and the comparison
  of the base branch with it fails, \<open>compareCommits\<close> returns \<open>null\<close>; the
  branch-exists check passes; the cherry-pick section is shown with the single
  entry \<open>None\<close>; the published-release check is evaluated; and the three checks
  are what they are under any other outcome \<open>other\<close> of the comparison.  The
  comparison is requested when the from-version field is not blank.
\<close>

theorem compare_failure_contained:
  assumes "currentRepo st = Some (owner, repo)"
    and "branchRequest api owner repo (releaseBranchNameOf version) = Inr ()"
    and "trim (from_prerelease_version st) \<noteq> []"
    and "compareRequest api owner repo (trim (from_prerelease_version st))
           (releaseBranchNameOf version) = Inl e"
  shows "compareCommits api owner repo (trim (from_prerelease_version st))
           (releaseBranchNameOf version) = None
       \<and> className (release_branch_exists_check (checkReleaseSteps api version st))
           = ''check-item success''
       \<and> cherry_picked_commits_list (checkReleaseSteps api version st) = [''None'']
       \<and> cherry_picked_commits_info (checkReleaseSteps api version st) = ''block''
       \<and> className (github_release_published_check (checkReleaseSteps api version st))
           \<in> {''check-item success'', ''check-item danger''}
       \<and> release_branch_exists_check (checkReleaseSteps (api\<lparr>compareRequest := other\<rparr>) version st)
           = release_branch_exists_check (checkReleaseSteps api version st)
       \<and> package_version_check (checkReleaseSteps (api\<lparr>compareRequest := other\<rparr>) version st)
           = package_version_check (checkReleaseSteps api version st)
       \<and> github_release_published_check (checkReleaseSteps (api\<lparr>compareRequest := other\<rparr>) version st)
           = github_release_published_check (checkReleaseSteps api version st)"
proof -
  let ?h = "releaseBranchNameOf version"
  let ?st4 = "checkPackageVersion owner repo version ?h (getPackageJson api owner repo ?h)
                (branchFound owner repo ?h (resetChecks st))"
  have b: "checkBranchExists api owner repo ?h"
    using assms(2) by (simp add: checkBranchExists_def)
  note u = checkReleaseSteps_branch_exists[OF assms(1) b]
  have f: "trim (from_prerelease_version ?st4) = trim (from_prerelease_version st)"
    by (simp only: checkPackageVersion_frame branchFound_frame resetChecks_frame)
  have n: "compareCommits api owner repo (trim (from_prerelease_version st)) ?h = None"
    using assms(4) by (rule compareCommits_failed)
  have c1: "className (release_branch_exists_check (checkReleaseSteps api version st))
           = ''check-item success''"
    by (simp only: u checkGitHubReleaseExists_frame checkCherryPickedCommits_frame
        checkPackageVersion_frame branchFound_frame)
  have c2: "cherry_picked_commits_list (checkReleaseSteps api version st) = [''None'']"
    unfolding u checkGitHubReleaseExists_frame
    by (rule checkCherryPickedCommits_failed) (simp_all only: f assms(3) n not_False_eq_True)
  have c3: "cherry_picked_commits_info (checkReleaseSteps api version st) = ''block''"
    unfolding u checkGitHubReleaseExists_frame
    by (rule checkCherryPickedCommits_failed) (simp_all only: f assms(3) n not_False_eq_True)
  have c4: "className (github_release_published_check (checkReleaseSteps api version st))
           \<in> {''check-item success'', ''check-item danger''}"
    unfolding u by (rule checkGitHubReleaseExists_evaluated)
  from n c1 c2 c3 c4 checks_independent_of_compare[OF assms(1) b, of other]
  show ?thesis by blast
qed

theorem compare_failure_contained_witness:
  "currentRepo ((analysedApp ''o'' ''r'' [])\<lparr>from_prerelease_version := ''v1.3.0-vscode''\<rparr>) = Some (''o'', ''r'')
   \<and> branchRequest (githubWithManifest ''1.2.4'') ''o'' ''r'' (releaseBranchNameOf ''v1.2.4'') = Inr ()
   \<and> trim (from_prerelease_version ((analysedApp ''o'' ''r'' [])\<lparr>from_prerelease_version := ''v1.3.0-vscode''\<rparr>)) = ''v1.3.0-vscode''
   \<and> compareRequest (githubWithManifest ''1.2.4'') ''o'' ''r'' ''v1.3.0-vscode'' (releaseBranchNameOf ''v1.2.4'') = Inl ApiError
   \<and> className (release_branch_exists_check (checkReleaseSteps (githubWithManifest ''1.2.4'') ''v1.2.4''
        ((analysedApp ''o'' ''r'' [])\<lparr>from_prerelease_version := ''v1.3.0-vscode''\<rparr>))) = ''check-item success''
   \<and> cherry_picked_commits_list (checkReleaseSteps (githubWithManifest ''1.2.4'') ''v1.2.4''
        ((analysedApp ''o'' ''r'' [])\<lparr>from_prerelease_version := ''v1.3.0-vscode''\<rparr>)) = [''None'']"
proof -
  let ?st = "(analysedApp ''o'' ''r'' [])\<lparr>from_prerelease_version := ''v1.3.0-vscode''\<rparr>"
  have t: "trim (from_prerelease_version ?st) = ''v1.3.0-vscode''"
    by (simp add: trim_def whiteSpace_def)
  have h: "currentRepo ?st = Some (''o'', ''r'')"
    "branchRequest (githubWithManifest ''1.2.4'') ''o'' ''r'' (releaseBranchNameOf ''v1.2.4'') = Inr ()"
    "trim (from_prerelease_version ?st) \<noteq> []"
    "compareRequest (githubWithManifest ''1.2.4'') ''o'' ''r'' (trim (from_prerelease_version ?st))
       (releaseBranchNameOf ''v1.2.4'') = Inl ApiError"
    unfolding t by (simp_all add: analysedApp_def githubWithManifest_def)
  from compare_failure_contained[OF h] h t show ?thesis by simp
qed







text \<open>
  Claim C8.  When the text of the target-version field, without the white space
  around it, is empty or is rejected by the validator, the handler of the edit
  changes nothing: \<open>validateVersion\<close> returns the state it was given, with the
  release steps and the check results as they were, and starts no evaluation.
\<close>

theorem invalid_edit_keeps_state:
  assumes "trim (target_release_version st) = [] \<or> \<not> isValidSemver (trim (target_release_version st))"
  shows "validateVersion api st = st \<and> startValidateVersion st = (st, None)"
  using assms by (auto simp: validateVersion_def startValidateVersion_def Let_def)

theorem invalid_edit_keeps_state_witness:
  "\<not> isValidSemver (trim (target_release_version ((analysedApp ''o'' ''r'' [])\<lparr>target_release_version := ''v1.2''\<rparr>)))
   \<and> validateVersion (githubWithManifest ''1.2.4'') ((analysedApp ''o'' ''r'' [])\<lparr>target_release_version := ''v1.2''\<rparr>)
       = (analysedApp ''o'' ''r'' [])\<lparr>target_release_version := ''v1.2''\<rparr>
   \<and> startValidateVersion ((analysedApp ''o'' ''r'' [])\<lparr>target_release_version := ''v1.2''\<rparr>)
       = ((analysedApp ''o'' ''r'' [])\<lparr>target_release_version := ''v1.2''\<rparr>, None)"
proof -
  have h: "\<not> isValidSemver (trim (target_release_version ((analysedApp ''o'' ''r'' [])\<lparr>target_release_version := ''v1.2''\<rparr>)))"
    by code_simp
  from invalid_edit_keeps_state[OF disjI2, OF h] h show ?thesis by simp
qed

section \<open>Overlapping evaluations\<close>

lemma checkReleaseSteps_segments:
  "checkReleaseSteps api version st
     = fst (answered api (answered api (answered api (startCheckReleaseSteps version st))))"
proof (cases "currentRepo st")
  case None
  then show ?thesis
    by (simp add: checkReleaseSteps_def startCheckReleaseSteps_def answered_def)
next
  case (Some a)
  obtain owner repo where a: "a = (owner, repo)" by (cases a)
  show ?thesis
  proof (cases "branchRequest api owner repo (releaseBranchNameOf version)")
    case (Inl e)
    with Some a show ?thesis
      by (simp add: checkReleaseSteps_def startCheckReleaseSteps_def answered_def checkBranchExists_def)
  next
    case (Inr u)
    show ?thesis
    proof (cases "trim (from_prerelease_version st) = []")
      case True
      with Some a Inr show ?thesis
        by (simp add: checkReleaseSteps_def startCheckReleaseSteps_def answered_def checkBranchExists_def
            Let_def checkCherryPickedCommits_def checkPackageVersion_frame branchFound_frame resetChecks_frame)
    next
      case False
      with Some a Inr show ?thesis
        by (simp add: checkReleaseSteps_def startCheckReleaseSteps_def answered_def checkBranchExists_def
            Let_def checkCherryPickedCommits_def checkPackageVersion_frame branchFound_frame resetChecks_frame
            compareCommits_def)
    qed
  qed
qed

lemma validateVersion_segments:
  "validateVersion api st
     = fst (answered api (answered api (answered api (startValidateVersion st))))"
  by (simp add: validateVersion_def startValidateVersion_def Let_def checkReleaseSteps_segments
      answered_def split: prod.splits option.splits)

text \<open>
  Claim C9, amended.  No evaluation is discarded.  When the answer to the branch
  request of an evaluation in flight arrives, the branch-exists check of the page
  becomes that evaluation's result, a pass for a branch that exists and a failure
  otherwise: what the page showed before, and so what any newer evaluation wrote,
  plays no part.
\<close>

theorem arriving_answer_overwrites:
  assumes "i < length evaluations"
    and "evaluations ! i = Some (AwaitBranch owner repo version)"
  shows "release_branch_exists_check (fst (fire (Arrive i (BranchResponse r)) (st, evaluations)))
           = release_branch_exists_check (fst (resume (AwaitBranch owner repo version) (BranchResponse r) st'))
       \<and> className (release_branch_exists_check (fst (fire (Arrive i (BranchResponse r)) (st, evaluations))))
           = (case r of Inr u \<Rightarrow> ''check-item success'' | Inl e \<Rightarrow> ''check-item danger'')"
  using assms
  by (cases r)
     (simp_all add: Let_def branchFound_def branchMissing_def hideCherryPickInfo_def updateStatus_def
        checkGitHubReleaseExists_frame split: prod.splits)

theorem arriving_answer_overwrites_witness:
  "0 < length [Some (AwaitBranch ''o'' ''r'' ''v1.0.0''), None]
   \<and> [Some (AwaitBranch ''o'' ''r'' ''v1.0.0''), None] ! 0 = Some (AwaitBranch ''o'' ''r'' ''v1.0.0'')
   \<and> className (release_branch_exists_check (fst (fire (Arrive 0 (BranchResponse (Inr ())))
         (analysedApp ''o'' ''r'' [], [Some (AwaitBranch ''o'' ''r'' ''v1.0.0''), None]))))
       = ''check-item success''"
proof -
  have h: "0 < length [Some (AwaitBranch ''o'' ''r'' ''v1.0.0''), None]"
    "[Some (AwaitBranch ''o'' ''r'' ''v1.0.0''), None] ! 0 = Some (AwaitBranch ''o'' ''r'' ''v1.0.0'')"
    by simp_all
  from arriving_answer_overwrites[OF h, of "Inr ()" "analysedApp ''o'' ''r'' []"] h
  show ?thesis by simp
qed

text \<open>
  Claim C9 as stated fails.  Evaluation 0, for \<open>v1.0.0\<close>, is in flight when
  evaluation 1, for \<open>v2.0.0\<close>, starts.  Evaluation 1 ends first and reports the
  branch missing; then the answer for evaluation 0 arrives and the check shows a
  pass, for the branch of \<open>v1.0.0\<close>, while the target field holds \<open>v2.0.0\<close>.
\<close>

theorem stale_result_counterexample:
  "snd (run [EditTarget ''v1.0.0'', EditTarget ''v2.0.0''] (analysedApp ''o'' ''r'' [], []))
     = [Some (AwaitBranch ''o'' ''r'' ''v1.0.0''), Some (AwaitBranch ''o'' ''r'' ''v2.0.0'')]
   \<and> snd (run [EditTarget ''v1.0.0'', EditTarget ''v2.0.0'', Arrive 1 (BranchResponse (Inl ApiError))]
         (analysedApp ''o'' ''r'' [], []))
     = [Some (AwaitBranch ''o'' ''r'' ''v1.0.0''), None]
   \<and> className (release_branch_exists_check (fst
        (run [EditTarget ''v1.0.0'', EditTarget ''v2.0.0'', Arrive 1 (BranchResponse (Inl ApiError))]
           (analysedApp ''o'' ''r'' [], []))))
     = ''check-item danger''
   \<and> className (release_branch_exists_check (fst
        (run [EditTarget ''v1.0.0'', EditTarget ''v2.0.0'', Arrive 1 (BranchResponse (Inl ApiError)),
              Arrive 0 (BranchResponse (Inr ()))]
           (analysedApp ''o'' ''r'' [], []))))
     = ''check-item success''
   \<and> innerHTML (release_branch_exists_check (fst
        (run [EditTarget ''v1.0.0'', EditTarget ''v2.0.0'', Arrive 1 (BranchResponse (Inl ApiError)),
              Arrive 0 (BranchResponse (Inr ()))]
           (analysedApp ''o'' ''r'' [], []))))
     = innerHTML (release_branch_exists_check
         (branchFound ''o'' ''r'' (releaseBranchNameOf ''v1.0.0'') (analysedApp ''o'' ''r'' [])))
   \<and> target_release_version (fst
        (run [EditTarget ''v1.0.0'', EditTarget ''v2.0.0'', Arrive 1 (BranchResponse (Inl ApiError)),
              Arrive 0 (BranchResponse (Inr ()))]
           (analysedApp ''o'' ''r'' [], [])))
     = ''v2.0.0''"
  by code_simp

end
